theory Spec2Isabelle
  imports Complex_Main "HOL-Library.Word"
begin

section \<open>JavaScript numbers\<close>

text \<open>
  The particle simulation of \<^verbatim>\<open>components/ParticleCanvas.tsx\<close> computes on JavaScript
  numbers. A number is modelled as an exact real or one of the three special values of
  IEEE arithmetic. Rounding, overflow and the sign of zero are not modelled: a finite
  result is the exact real result. The special values follow the IEEE rules, so that a
  division of zero by zero is \<open>NaN\<close> and every operation on \<open>NaN\<close> is \<open>NaN\<close>.
\<close>

datatype jsnum = Fin real | PInf | NInf | NaN

fun js_neg :: "jsnum \<Rightarrow> jsnum" where
  "js_neg (Fin a) = Fin (- a)"
| "js_neg PInf = NInf"
| "js_neg NInf = PInf"
| "js_neg NaN = NaN"

fun js_add :: "jsnum \<Rightarrow> jsnum \<Rightarrow> jsnum" where
  "js_add (Fin a) (Fin b) = Fin (a + b)"
| "js_add NaN _ = NaN"
| "js_add _ NaN = NaN"
| "js_add PInf NInf = NaN"
| "js_add NInf PInf = NaN"
| "js_add PInf _ = PInf"
| "js_add _ PInf = PInf"
| "js_add NInf _ = NInf"
| "js_add _ NInf = NInf"

definition js_sub :: "jsnum \<Rightarrow> jsnum \<Rightarrow> jsnum" where
  "js_sub a b = js_add a (js_neg b)"

fun js_mul :: "jsnum \<Rightarrow> jsnum \<Rightarrow> jsnum" where
  "js_mul (Fin a) (Fin b) = Fin (a * b)"
| "js_mul NaN _ = NaN"
| "js_mul _ NaN = NaN"
| "js_mul (Fin a) PInf = (if a = 0 then NaN else if 0 < a then PInf else NInf)"
| "js_mul (Fin a) NInf = (if a = 0 then NaN else if 0 < a then NInf else PInf)"
| "js_mul PInf (Fin b) = (if b = 0 then NaN else if 0 < b then PInf else NInf)"
| "js_mul NInf (Fin b) = (if b = 0 then NaN else if 0 < b then NInf else PInf)"
| "js_mul PInf PInf = PInf"
| "js_mul PInf NInf = NInf"
| "js_mul NInf PInf = NInf"
| "js_mul NInf NInf = PInf"

text \<open>
  Division: zero by zero is \<open>NaN\<close>; a non-zero number by zero is an infinity (the zero
  divisor is taken as positive, the sign of zero not being modelled).
\<close>

fun js_div :: "jsnum \<Rightarrow> jsnum \<Rightarrow> jsnum" where
  "js_div (Fin a) (Fin b) =
     (if b = 0 then (if a = 0 then NaN else if 0 < a then PInf else NInf) else Fin (a / b))"
| "js_div NaN _ = NaN"
| "js_div _ NaN = NaN"
| "js_div (Fin a) PInf = Fin 0"
| "js_div (Fin a) NInf = Fin 0"
| "js_div PInf (Fin b) = (if 0 \<le> b then PInf else NInf)"
| "js_div NInf (Fin b) = (if 0 \<le> b then NInf else PInf)"
| "js_div PInf PInf = NaN"
| "js_div PInf NInf = NaN"
| "js_div NInf PInf = NaN"
| "js_div NInf NInf = NaN"

text \<open>\<^verbatim>\<open>Math.sqrt\<close>.\<close>

fun js_sqrt :: "jsnum \<Rightarrow> jsnum" where
  "js_sqrt (Fin a) = (if a < 0 then NaN else Fin (sqrt a))"
| "js_sqrt PInf = PInf"
| "js_sqrt NInf = NaN"
| "js_sqrt NaN = NaN"

text \<open>The comparison \<^verbatim>\<open><\<close>: false whenever an operand is \<open>NaN\<close>.\<close>

fun js_lt :: "jsnum \<Rightarrow> jsnum \<Rightarrow> bool" where
  "js_lt (Fin a) (Fin b) = (a < b)"
| "js_lt NaN _ = False"
| "js_lt _ NaN = False"
| "js_lt NInf NInf = False"
| "js_lt NInf _ = True"
| "js_lt _ NInf = False"
| "js_lt PInf _ = False"
| "js_lt _ PInf = True"

text \<open>The comparison \<^verbatim>\<open>!==\<close> on two numbers: \<open>NaN\<close> differs from everything, itself included.\<close>

fun js_strict_neq :: "jsnum \<Rightarrow> jsnum \<Rightarrow> bool" where
  "js_strict_neq NaN _ = True"
| "js_strict_neq _ NaN = True"
| "js_strict_neq a b = (a \<noteq> b)"

text \<open>
  \<^verbatim>\<open>v || d\<close> on a value of type \<^verbatim>\<open>number | null\<close>: the falsy values are \<^verbatim>\<open>null\<close>,
  zero and \<open>NaN\<close>; for them the result is the right operand.
\<close>

fun js_or :: "jsnum option \<Rightarrow> jsnum \<Rightarrow> jsnum" where
  "js_or None d = d"
| "js_or (Some (Fin a)) d = (if a = 0 then d else Fin a)"
| "js_or (Some NaN) d = d"
| "js_or (Some v) d = v"

text \<open>The numeric value of a \<^verbatim>\<open>number | null\<close> operand in arithmetic: \<^verbatim>\<open>null\<close> counts as 0.\<close>

fun to_number :: "jsnum option \<Rightarrow> jsnum" where
  "to_number None = Fin 0"
| "to_number (Some v) = v"


section \<open>Data model\<close>

text \<open>
  \<^verbatim>\<open>interface Particle\<close> of \<^verbatim>\<open>types.ts\<close>. The fields \<^verbatim>\<open>x\<close>, \<^verbatim>\<open>y\<close> and \<^verbatim>\<open>size\<close> are named
  \<open>px\<close>, \<open>py\<close> and \<open>psize\<close> here.
\<close>

record particle =
  px :: jsnum
  py :: jsnum
  originX :: jsnum
  originY :: jsnum
  color :: string
  psize :: jsnum
  vx :: jsnum
  vy :: jsnum
  density :: jsnum

text \<open>The objects held by \<^verbatim>\<open>targetRef\<close> and \<^verbatim>\<open>currentRef\<close>: \<^verbatim>\<open>{x: number | null, y: number | null}\<close>.\<close>

record point =
  pt_x :: "jsnum option"
  pt_y :: "jsnum option"

text \<open>\<^verbatim>\<open>radiusRef\<close> is initialised to 320 and never assigned.\<close>

definition radiusRef :: jsnum where
  "radiusRef = Fin 320"


section \<open>Interaction smoothing\<close>

text \<open>Lines 219 to 233 of \<^verbatim>\<open>animate\<close>.\<close>

definition lerp :: "jsnum \<Rightarrow> jsnum \<Rightarrow> jsnum \<Rightarrow> jsnum" where
  "lerp start end factor = js_add start (js_mul (js_sub end start) factor)"

definition smoothFactor :: jsnum where
  "smoothFactor = Fin 0.15"

definition smooth :: "point \<Rightarrow> point \<Rightarrow> point" where
  "smooth target current =
     (if pt_x target \<noteq> None \<and> pt_y target \<noteq> None then
        (if pt_x current = None then
           current\<lparr>pt_x := pt_x target, pt_y := pt_y target\<rparr>
         else
           current\<lparr>pt_x := Some (lerp (to_number (pt_x current)) (to_number (pt_x target)) smoothFactor),
                   pt_y := Some (lerp (to_number (pt_y current)) (to_number (pt_y target)) smoothFactor)\<rparr>)
      else
        current\<lparr>pt_x := None, pt_y := None\<rparr>)"


section \<open>The physics step\<close>

text \<open>
  The body of the physics loop of \<^verbatim>\<open>animate\<close> (lines 249 to 284) for one particle.
  \<open>centerX\<close> and \<open>centerY\<close> are the canvas centre computed at the head of the frame,
  \<open>cur\<close> is \<^verbatim>\<open>currentRef.current\<close>.
\<close>

definition interactionX :: "point \<Rightarrow> jsnum" where
  "interactionX cur = js_or (pt_x cur) (Fin (- 1000))"

definition interactionY :: "point \<Rightarrow> jsnum" where
  "interactionY cur = js_or (pt_y cur) (Fin (- 1000))"

definition distance :: "point \<Rightarrow> particle \<Rightarrow> jsnum" where
  "distance cur p =
     (let dx = js_sub (interactionX cur) (px p);
          dy = js_sub (interactionY cur) (py p)
      in js_sqrt (js_add (js_mul dx dx) (js_mul dy dy)))"

definition physics_step :: "jsnum \<Rightarrow> jsnum \<Rightarrow> point \<Rightarrow> particle \<Rightarrow> particle" where
  "physics_step centerX centerY cur p =
     (let dx = js_sub (interactionX cur) (px p);
          dy = js_sub (interactionY cur) (py p);
          dist = distance cur p;
          forceDirectionX = js_div dx dist;
          forceDirectionY = js_div dy dist;
          maxDistance = radiusRef;
          homeX = js_add centerX (originX p);
          homeY = js_add centerY (originY p);
          p1 = (if js_lt dist maxDistance then
                  (let force = js_div (js_sub maxDistance dist) maxDistance;
                       directionX = js_mul (js_mul (js_mul forceDirectionX force) (density p)) (Fin 2);
                       directionY = js_mul (js_mul (js_mul forceDirectionY force) (density p)) (Fin 2)
                   in p\<lparr>vx := js_sub (vx p) directionX, vy := js_sub (vy p) directionY\<rparr>)
                else
                  (let q = (if js_strict_neq (px p) homeX
                            then p\<lparr>vx := js_sub (vx p) (js_div (js_sub (px p) homeX) (Fin 25))\<rparr>
                            else p)
                   in (if js_strict_neq (py q) homeY
                       then q\<lparr>vy := js_sub (vy q) (js_div (js_sub (py q) homeY) (Fin 25))\<rparr>
                       else q)));
          p2 = p1\<lparr>vx := js_mul (vx p1) (Fin 0.9)\<rparr>;
          p3 = p2\<lparr>vy := js_mul (vy p2) (Fin 0.9)\<rparr>;
          p4 = p3\<lparr>px := js_add (px p3) (vx p3)\<rparr>
      in p4\<lparr>py := js_add (py p4) (vy p4)\<rparr>)"


section \<open>The frame and the input handlers\<close>

text \<open>
  The state the component keeps between callbacks: the canvas (its pixel dimensions, or
  no canvas when \<^verbatim>\<open>canvasRef.current\<close> is null), the installed particle array, the last
  image passed to the sampler, and the raw and smoothed interaction points.
\<close>

record canvas =
  cv_width :: nat
  cv_height :: nat

record image =
  img_src :: string
  img_width :: nat
  img_height :: nat

record sim_state =
  canvasRef :: "canvas option"
  particles :: "particle list"
  imageRef :: "image option"
  targetRef :: point
  currentRef :: point

text \<open>
  One call of \<^verbatim>\<open>animate\<close>: it returns at once without a canvas or without its 2D
  context (\<open>ctx_ok\<close> tells whether \<^verbatim>\<open>getContext('2d')\<close> gave one); otherwise it advances
  the smoothed point and runs the physics loop over the array in place. Drawing and
  the scheduling of the next frame leave the state untouched and are not modelled.
\<close>

definition animate :: "bool \<Rightarrow> sim_state \<Rightarrow> sim_state" where
  "animate ctx_ok s =
     (case canvasRef s of
        None \<Rightarrow> s
      | Some cv \<Rightarrow>
          if \<not> ctx_ok then s
          else
            (let centerX = js_div (Fin (real (cv_width cv))) (Fin 2);
                 centerY = js_div (Fin (real (cv_height cv))) (Fin 2);
                 cur = smooth (targetRef s) (currentRef s)
             in s\<lparr>currentRef := cur,
                  particles := map (physics_step centerX centerY cur) (particles s)\<rparr>))"

text \<open>
  The callbacks that run between frames: a frame itself, the immediate part of
  \<^verbatim>\<open>handleResize\<close> (the canvas takes the window's size), \<^verbatim>\<open>setInteractionPoint\<close>,
  \<^verbatim>\<open>handleMouseMove\<close> (client coordinates and the canvas rectangle's left and top) and
  \<^verbatim>\<open>handleMouseLeave\<close>. The debounced re-sampling is \<open>initParticles\<close> below: it installs
  newly created particles.
\<close>

datatype event =
    Frame bool
  | Resize nat nat
  | SetInteractionPoint "jsnum option" "jsnum option"
  | MouseMove jsnum jsnum jsnum jsnum
  | MouseLeave

fun handle :: "event \<Rightarrow> sim_state \<Rightarrow> sim_state" where
  "handle (Frame ctx_ok) s = animate ctx_ok s"
| "handle (Resize innerWidth innerHeight) s =
     (case canvasRef s of
        None \<Rightarrow> s
      | Some cv \<Rightarrow> s\<lparr>canvasRef := Some (cv\<lparr>cv_width := innerWidth, cv_height := innerHeight\<rparr>)\<rparr>)"
| "handle (SetInteractionPoint a b) s = s\<lparr>targetRef := (targetRef s)\<lparr>pt_x := a, pt_y := b\<rparr>\<rparr>"
| "handle (MouseMove clientX clientY rectLeft rectTop) s =
     (case canvasRef s of
        None \<Rightarrow> s
      | Some cv \<Rightarrow> s\<lparr>targetRef := (targetRef s)\<lparr>pt_x := Some (js_sub clientX rectLeft),
                                                 pt_y := Some (js_sub clientY rectTop)\<rparr>\<rparr>)"
| "handle MouseLeave s = s\<lparr>targetRef := (targetRef s)\<lparr>pt_x := None, pt_y := None\<rparr>\<rparr>"

fun run :: "event list \<Rightarrow> sim_state \<Rightarrow> sim_state" where
  "run [] s = s"
| "run (e # es) s = run es (handle e s)"

text \<open>The fields of a particle that the specification calls immutable.\<close>

definition fixed_fields :: "particle \<Rightarrow> jsnum \<times> jsnum \<times> string \<times> jsnum \<times> jsnum" where
  "fixed_fields p = (originX p, originY p, color p, psize p, density p)"


section \<open>The image sampler\<close>

text \<open>More of the number library: \<^verbatim>\<open>Math.floor\<close>, \<^verbatim>\<open>Math.min\<close>, \<^verbatim>\<open>Math.cos\<close>, \<^verbatim>\<open>Math.sin\<close>.\<close>

fun js_floor :: "jsnum \<Rightarrow> jsnum" where
  "js_floor (Fin a) = Fin (of_int \<lfloor>a\<rfloor>)"
| "js_floor v = v"

fun js_min :: "jsnum \<Rightarrow> jsnum \<Rightarrow> jsnum" where
  "js_min NaN _ = NaN"
| "js_min _ NaN = NaN"
| "js_min a b = (if js_lt b a then b else a)"

fun js_cos :: "jsnum \<Rightarrow> jsnum" where
  "js_cos (Fin a) = Fin (cos a)"
| "js_cos _ = NaN"

fun js_sin :: "jsnum \<Rightarrow> jsnum" where
  "js_sin (Fin a) = Fin (sin a)"
| "js_sin _ = NaN"

text \<open>
  The text a template literal gives for a number. It is only applied to results of
  \<^verbatim>\<open>Math.floor\<close>, so the finite case prints an integer in decimal.
\<close>

fun digits_of :: "nat \<Rightarrow> string" where
  "digits_of n =
     (if n < 10 then [''0123456789'' ! n]
      else digits_of (n div 10) @ [''0123456789'' ! (n mod 10)])"

fun js_to_string :: "jsnum \<Rightarrow> string" where
  "js_to_string (Fin a) =
     (if a < 0 then ''-'' @ digits_of (nat \<lfloor>- a\<rfloor>) else digits_of (nat \<lfloor>a\<rfloor>))"
| "js_to_string PInf = ''Infinity''"
| "js_to_string NInf = ''-Infinity''"
| "js_to_string NaN = ''NaN''"

text \<open>
  \<^verbatim>\<open>initParticles(img, width, height)\<close>, lines 43 to 159. The callers pass the canvas's
  \<^verbatim>\<open>width\<close> and \<^verbatim>\<open>height\<close>, which are unsigned integers. The browser's part is taken as
  given: \<open>ctx_ok\<close> tells whether the offscreen canvas gave a 2D context, \<open>data\<close> is the
  byte array \<^verbatim>\<open>imageData.data\<close> read back after the image was drawn (four bytes per
  pixel, the fourth the alpha), and \<open>rnd\<close> is the sequence of values that the successive
  calls of \<^verbatim>\<open>Math.random()\<close> return, the loops threading the number of values used.
\<close>

definition universeRadius :: "nat \<Rightarrow> nat \<Rightarrow> jsnum" where
  "universeRadius width height = js_mul (Fin (real (min width height))) (Fin 0.45)"

definition sphereArea :: "nat \<Rightarrow> nat \<Rightarrow> jsnum" where
  "sphereArea width height =
     js_mul (js_mul (Fin pi) (universeRadius width height)) (universeRadius width height)"

definition targetCount :: "nat \<Rightarrow> nat \<Rightarrow> jsnum" where
  "targetCount width height = js_floor (js_div (sphereArea width height) (Fin 30))"

definition ambientCount :: "nat \<Rightarrow> nat \<Rightarrow> jsnum" where
  "ambientCount width height = js_min (targetCount width height) (Fin 20000)"

text \<open>One pass of the first loop's body: the particle it pushes, from six random values.\<close>

definition ambient_particle :: "(nat \<Rightarrow> real) \<Rightarrow> nat \<Rightarrow> nat \<Rightarrow> nat \<Rightarrow> particle" where
  "ambient_particle rnd k width height =
     (let centerX = js_div (Fin (real width)) (Fin 2);
          centerY = js_div (Fin (real height)) (Fin 2);
          angle = js_mul (js_mul (Fin (rnd k)) (Fin pi)) (Fin 2);
          r = js_mul (js_sqrt (Fin (rnd (k + 1)))) (universeRadius width height);
          x = js_add centerX (js_mul r (js_cos angle));
          y = js_add centerY (js_mul r (js_sin angle));
          isStar = js_lt (Fin (rnd (k + 2))) (Fin 0.005);
          val = (if isStar
                 then js_floor (js_add (js_mul (Fin (rnd (k + 3))) (Fin 100)) (Fin 155))
                 else js_floor (js_add (js_mul (Fin (rnd (k + 3))) (Fin 30)) (Fin 10)));
          sz = (if isStar
                then js_add (js_mul (Fin (rnd (k + 4))) (Fin 1.5)) (Fin 0.5)
                else js_add (js_mul (Fin (rnd (k + 4))) (Fin 2)) (Fin 0.5))
      in \<lparr>px = x, py = y,
          originX = js_sub x centerX, originY = js_sub y centerY,
          color = ''rgb('' @ js_to_string val @ '', '' @ js_to_string val @ '', ''
                    @ js_to_string val @ '')'',
          psize = sz, vx = Fin 0, vy = Fin 0,
          density = js_add (js_mul (Fin (rnd (k + 5))) (Fin 20)) (Fin 1)\<rparr>)"

function ambient_loop ::
  "(nat \<Rightarrow> real) \<Rightarrow> nat \<Rightarrow> nat \<Rightarrow> nat \<Rightarrow> particle list \<times> nat \<Rightarrow> particle list \<times> nat" where
  "ambient_loop rnd width height i st =
     (if js_lt (Fin (real i)) (ambientCount width height)
      then ambient_loop rnd width height (i + 1)
             (fst st @ [ambient_particle rnd (snd st) width height], snd st + 6)
      else st)"
  by pat_completeness auto
termination
proof (relation "measure (\<lambda>(rnd, width, height, i, st). 20000 - i)")
  show "wf (measure (\<lambda>(rnd, width, height, i, st). 20000 - i))"
    by simp
next
  fix rnd :: "nat \<Rightarrow> real" and width height i :: nat and st :: "particle list \<times> nat"
  assume lt: "js_lt (Fin (real i)) (ambientCount width height)"
  have "i < 20000"
    using lt unfolding ambientCount_def
    by (cases "targetCount width height") (auto split: if_splits)
  then show "((rnd, width, height, i + 1, fst st @ [ambient_particle rnd (snd st) width height],
               snd st + 6), (rnd, width, height, i, st))
             \<in> measure (\<lambda>(rnd, width, height, i, st). 20000 - i)"
    by simp
qed

text \<open>The second loop: the stride, the alpha read, the particle pushed, the two nested loops.\<close>

definition step_of :: "nat \<Rightarrow> nat" where
  "step_of width = (if width < 768 then 3 else 2)"

text \<open>\<^verbatim>\<open>data[i]\<close>: a read past the end gives \<^verbatim>\<open>undefined\<close>.\<close>

definition data_at :: "8 word list \<Rightarrow> nat \<Rightarrow> 8 word option" where
  "data_at data i = (if i < length data then Some (data ! i) else None)"

text \<open>\<^verbatim>\<open>alpha > 128\<close>: false for \<^verbatim>\<open>undefined\<close>.\<close>

fun alpha_exceeds :: "8 word option \<Rightarrow> bool" where
  "alpha_exceeds None = False"
| "alpha_exceeds (Some a) = (128 < unat a)"

definition image_particle :: "(nat \<Rightarrow> real) \<Rightarrow> nat \<Rightarrow> nat \<Rightarrow> nat \<Rightarrow> nat \<Rightarrow> nat \<Rightarrow> particle" where
  "image_particle rnd k width height pX pY =
     (let centerX = js_div (Fin (real width)) (Fin 2);
          centerY = js_div (Fin (real height)) (Fin 2)
      in \<lparr>px = js_mul (Fin (rnd k)) (Fin (real width)),
          py = js_mul (Fin (rnd (k + 1))) (Fin (real height)),
          originX = js_sub (Fin (real pX)) centerX,
          originY = js_sub (Fin (real pY)) centerY,
          color = ''rgb(255, 255, 255)'',
          psize = (if js_lt (Fin (rnd (k + 2))) (Fin 0.3)
                   then js_add (js_mul (Fin (rnd (k + 3))) (Fin 0.8)) (Fin 0.6)
                   else js_add (js_mul (Fin (rnd (k + 3))) (Fin 0.4)) (Fin 0.2)),
          vx = Fin 0, vy = Fin 0,
          density = js_add (js_mul (Fin (rnd (k + 4))) (Fin 30)) (Fin 1)\<rparr>)"

function image_row ::
  "(nat \<Rightarrow> real) \<Rightarrow> 8 word list \<Rightarrow> nat \<Rightarrow> nat \<Rightarrow> nat \<Rightarrow> nat
     \<Rightarrow> particle list \<times> nat \<Rightarrow> particle list \<times> nat" where
  "image_row rnd data width height y x st =
     (if x < width then
        (let pX = x; pY = y; index = (pY * width + pX) * 4
         in if length data \<le> index then
              image_row rnd data width height y (x + step_of width) st
            else if alpha_exceeds (data_at data (index + 3)) then
              image_row rnd data width height y (x + step_of width)
                (fst st @ [image_particle rnd (snd st) width height pX pY], snd st + 5)
            else
              image_row rnd data width height y (x + step_of width) st)
      else st)"
  by pat_completeness auto
termination
  by (relation "measure (\<lambda>(rnd, data, width, height, y, x, st). width - x)")
     (auto simp: step_of_def)

function image_rows ::
  "(nat \<Rightarrow> real) \<Rightarrow> 8 word list \<Rightarrow> nat \<Rightarrow> nat \<Rightarrow> nat
     \<Rightarrow> particle list \<times> nat \<Rightarrow> particle list \<times> nat" where
  "image_rows rnd data width height y st =
     (if y < height then
        image_rows rnd data width height (y + step_of width)
          (image_row rnd data width height y 0 st)
      else st)"
  by pat_completeness auto
termination
  by (relation "measure (\<lambda>(rnd, data, width, height, y, st). height - y)")
     (auto simp: step_of_def)

text \<open>
  The whole call. The image is remembered before the context is asked for; without a
  context the call returns there. Otherwise both loops push into one array, which
  \<^verbatim>\<open>setParticles\<close> installs.
\<close>

definition initParticles ::
  "bool \<Rightarrow> 8 word list \<Rightarrow> (nat \<Rightarrow> real) \<Rightarrow> image \<Rightarrow> nat \<Rightarrow> nat \<Rightarrow> sim_state \<Rightarrow> sim_state" where
  "initParticles ctx_ok data rnd img width height s =
     (let s1 = s\<lparr>imageRef := Some img\<rparr>
      in if \<not> ctx_ok then s1
         else
           (let st1 = ambient_loop rnd width height 0 ([], 0);
                st2 = image_rows rnd data width height 0 st1
            in s1\<lparr>particles := fst st2\<rparr>))"


section \<open>The physics step in the specification's words\<close>

text \<open>
  The specification describes the step as four stages in a fixed order: a force
  (repulsion inside the radius, the spring toward home outside), damping, integration.
  These definitions follow its sentences; the theorems compare them with \<open>physics_step\<close>.
\<close>

definition home_x :: "jsnum \<Rightarrow> particle \<Rightarrow> jsnum" where
  "home_x centerX p = js_add centerX (originX p)"

definition home_y :: "jsnum \<Rightarrow> particle \<Rightarrow> jsnum" where
  "home_y centerY p = js_add centerY (originY p)"

definition spec_repel :: "point \<Rightarrow> particle \<Rightarrow> particle" where
  "spec_repel cur p =
     (let d = distance cur p;
          unitX = js_div (js_sub (interactionX cur) (px p)) d;
          unitY = js_div (js_sub (interactionY cur) (py p)) d;
          magnitude = js_mul (js_mul (js_div (js_sub radiusRef d) radiusRef) (density p)) (Fin 2)
      in p\<lparr>vx := js_sub (vx p) (js_mul unitX magnitude),
           vy := js_sub (vy p) (js_mul unitY magnitude)\<rparr>)"

definition spec_spring :: "jsnum \<Rightarrow> jsnum \<Rightarrow> particle \<Rightarrow> particle" where
  "spec_spring centerX centerY p =
     p\<lparr>vx := js_sub (vx p) (js_div (js_sub (px p) (home_x centerX p)) (Fin 25)),
       vy := js_sub (vy p) (js_div (js_sub (py p) (home_y centerY p)) (Fin 25))\<rparr>"

definition spec_damp :: "particle \<Rightarrow> particle" where
  "spec_damp p = p\<lparr>vx := js_mul (vx p) (Fin 0.9), vy := js_mul (vy p) (Fin 0.9)\<rparr>"

definition spec_integrate :: "particle \<Rightarrow> particle" where
  "spec_integrate p = p\<lparr>px := js_add (px p) (vx p), py := js_add (py p) (vy p)\<rparr>"

definition spec_step :: "jsnum \<Rightarrow> jsnum \<Rightarrow> point \<Rightarrow> particle \<Rightarrow> particle" where
  "spec_step centerX centerY cur p =
     spec_integrate (spec_damp
       (if js_lt (distance cur p) radiusRef then spec_repel cur p
        else spec_spring centerX centerY p))"


section \<open>The sampler's output in the specification's words\<close>

text \<open>
  The positions the second loop visits are the multiples of the stride below the
  bound, row by row; a pixel's alpha is the fourth byte of its group of four; an image
  particle is placed for each visited position whose alpha exceeds 128, each taking five
  random values in turn.
\<close>

definition visited :: "nat \<Rightarrow> nat \<Rightarrow> nat list" where
  "visited stride n = filter (\<lambda>i. stride dvd i) [0..<n]"

definition grid :: "nat \<Rightarrow> nat \<Rightarrow> (nat \<times> nat) list" where
  "grid width height =
     (let stride = (if width < 768 then 3 else 2)
      in concat (map (\<lambda>y. map (\<lambda>x. (x, y)) (visited stride width)) (visited stride height)))"

definition pixel_alpha :: "8 word list \<Rightarrow> nat \<Rightarrow> nat \<times> nat \<Rightarrow> 8 word option" where
  "pixel_alpha data width pos = data_at data ((snd pos * width + fst pos) * 4 + 3)"

definition opaque :: "8 word list \<Rightarrow> nat \<Rightarrow> nat \<times> nat \<Rightarrow> bool" where
  "opaque data width pos = alpha_exceeds (pixel_alpha data width pos)"

fun place :: "(nat \<Rightarrow> real) \<Rightarrow> nat \<Rightarrow> nat \<Rightarrow> nat \<Rightarrow> (nat \<times> nat) list \<Rightarrow> particle list" where
  "place rnd width height k [] = []"
| "place rnd width height k (pos # ps) =
     image_particle rnd k width height (fst pos) (snd pos) # place rnd width height (k + 5) ps"

section \<open>Rest under a null interaction point\<close>







text \<open>A sequence of random values for the examples.\<close>

definition sample_rnd :: "nat \<Rightarrow> real" where
  "sample_rnd k = (if even k then 1 / 4 else 3 / 4)"

declare ambient_loop.simps [simp del] image_row.simps [simp del] image_rows.simps [simp del]


section \<open>Facts about the number operations\<close>

lemma js_mul_assoc: "js_mul (js_mul a b) c = js_mul a (js_mul b c)"
  by (cases a; cases b; cases c) (auto simp: zero_less_mult_iff mult_less_0_iff not_less)

lemma js_add_NaN_right: "js_add a NaN = NaN"
  by (cases a) simp_all

lemma js_mul_NaN_right: "js_mul a NaN = NaN"
  by (cases a) simp_all

lemma js_sub_NaN_right: "js_sub a NaN = NaN"
  by (simp add: js_sub_def js_add_NaN_right)

lemma js_sub_zero: "js_sub v (Fin 0) = v"
  by (cases v) (simp_all add: js_sub_def)

lemma js_sub_self_fin: "u = Fin a \<Longrightarrow> js_div (js_sub u (Fin a)) (Fin 25) = Fin 0"
  by (simp add: js_sub_def)

lemma not_neq_fin_right: "\<not> js_strict_neq u (Fin a) \<Longrightarrow> u = Fin a"
  by (cases u) simp_all

lemma not_neq_fin_left: "\<not> js_strict_neq (Fin a) u \<Longrightarrow> u = Fin a"
  by (cases u) simp_all

lemma sqrt_25: "sqrt 25 = 5"
  by (rule real_sqrt_unique) simp_all

section \<open>The two branches of the physics step\<close>

lemma spring_branch_eq:
  assumes "\<not> js_lt (distance cur p) radiusRef"
    and "(\<exists>a. px p = Fin a) \<or> (\<exists>h. js_add centerX (originX p) = Fin h)"
    and "(\<exists>b. py p = Fin b) \<or> (\<exists>h. js_add centerY (originY p) = Fin h)"
  shows "physics_step centerX centerY cur p
         = spec_integrate (spec_damp (spec_spring centerX centerY p))"
proof -
  have X: "\<not> js_strict_neq (px p) (js_add centerX (originX p)) \<Longrightarrow>
           js_sub (vx p) (js_div (js_sub (px p) (js_add centerX (originX p))) (Fin 25)) = vx p"
    using assms(2)
    by (auto dest!: not_neq_fin_right not_neq_fin_left simp: js_sub_zero js_sub_self_fin)
  have Y: "\<not> js_strict_neq (py p) (js_add centerY (originY p)) \<Longrightarrow>
           js_sub (vy p) (js_div (js_sub (py p) (js_add centerY (originY p))) (Fin 25)) = vy p"
    using assms(3)
    by (auto dest!: not_neq_fin_right not_neq_fin_left simp: js_sub_zero js_sub_self_fin)
  show ?thesis
    using assms(1) X Y
    by (simp add: physics_step_def spec_integrate_def spec_damp_def spec_spring_def
          home_x_def home_y_def Let_def)
qed

lemma repel_branch_eq:
  assumes "js_lt (distance cur p) radiusRef"
  shows "physics_step centerX centerY cur p = spec_integrate (spec_damp (spec_repel cur p))"
  using assms
  by (simp add: physics_step_def spec_integrate_def spec_damp_def spec_repel_def Let_def
        js_mul_assoc)

text \<open>
  C1. For a particle with a finite origin on a canvas with a finite centre, one pass of
  the physics loop is the specification's step: home is centre plus origin; inside the
  radius the velocity loses the unit direction toward the interaction position scaled
  by ((radius - distance) / radius) * density * 2, outside it loses
  (position - home) / 25; then the velocity is multiplied by 0.9; then it is added to
  the position.
\<close>

theorem physics_step_refines_spec:
  assumes "originX p = Fin ox" and "originY p = Fin oy"
  shows "physics_step (Fin cx) (Fin cy) cur p = spec_step (Fin cx) (Fin cy) cur p"
proof (cases "js_lt (distance cur p) radiusRef")
  case True
  then show ?thesis by (simp add: repel_branch_eq spec_step_def)
next
  case False
  then show ?thesis using assms by (simp add: spring_branch_eq spec_step_def)
qed

theorem physics_step_refines_spec_witness:
  "originX \<lparr>px = Fin 10, py = Fin 10, originX = Fin 0, originY = Fin 0,
            color = ''rgb(255, 255, 255)'', psize = Fin 1, vx = Fin 0, vy = Fin 0,
            density = Fin 2\<rparr> = Fin 0
   \<and> physics_step (Fin 400) (Fin 300) \<lparr>pt_x = Some (Fin 13), pt_y = Some (Fin 14)\<rparr>
       \<lparr>px = Fin 10, py = Fin 10, originX = Fin 0, originY = Fin 0,
        color = ''rgb(255, 255, 255)'', psize = Fin 1, vx = Fin 0, vy = Fin 0,
        density = Fin 2\<rparr>
     = \<lparr>px = Fin 7.87375, py = Fin 7.165, originX = Fin 0, originY = Fin 0,
        color = ''rgb(255, 255, 255)'', psize = Fin 1, vx = Fin (- 2.12625), vy = Fin (- 2.835),
        density = Fin 2\<rparr>"
  using physics_step_refines_spec
    [of "\<lparr>px = Fin 10, py = Fin 10, originX = Fin 0, originY = Fin 0,
          color = ''rgb(255, 255, 255)'', psize = Fin 1, vx = Fin 0, vy = Fin 0,
          density = Fin 2\<rparr>" 0 0 400 300 "\<lparr>pt_x = Some (Fin 13), pt_y = Some (Fin 14)\<rparr>"]
  by (simp add: spec_step_def spec_integrate_def spec_damp_def spec_repel_def distance_def
        interactionX_def interactionY_def radiusRef_def js_sub_def sqrt_25 Let_def)

text \<open>
  C4. The smoothing of one frame: a target of (null, null) makes the current point
  (null, null); a null current point with a non-null target becomes the target itself;
  with both non-null each coordinate becomes current + (target - current) * 0.15; from
  (0, 0) toward (100, 100) this gives (15, 15).
\<close>

theorem smooth_cases:
  "smooth \<lparr>pt_x = None, pt_y = None\<rparr> cur = \<lparr>pt_x = None, pt_y = None\<rparr>
   \<and> smooth \<lparr>pt_x = Some tx, pt_y = Some ty\<rparr> \<lparr>pt_x = None, pt_y = None\<rparr>
       = \<lparr>pt_x = Some tx, pt_y = Some ty\<rparr>
   \<and> smooth \<lparr>pt_x = Some tx, pt_y = Some ty\<rparr> \<lparr>pt_x = Some ux, pt_y = Some uy\<rparr>
       = \<lparr>pt_x = Some (js_add ux (js_mul (js_sub tx ux) (Fin 0.15))),
          pt_y = Some (js_add uy (js_mul (js_sub ty uy) (Fin 0.15)))\<rparr>
   \<and> smooth \<lparr>pt_x = Some (Fin 100), pt_y = Some (Fin 100)\<rparr>
         \<lparr>pt_x = Some (Fin 0), pt_y = Some (Fin 0)\<rparr>
       = \<lparr>pt_x = Some (Fin 15), pt_y = Some (Fin 15)\<rparr>"
  by (simp add: smooth_def lerp_def smoothFactor_def js_sub_def)

text \<open>
  C5. A particle whose position is the effective interaction position has distance 0;
  the direction is then zero divided by zero, nothing guards the division, and the
  step leaves both velocity components \<open>NaN\<close>.
\<close>

theorem zero_distance_gives_NaN:
  assumes "interactionX cur = Fin a" and "interactionY cur = Fin b"
    and "px p = Fin a" and "py p = Fin b"
  shows "distance cur p = Fin 0
    \<and> js_div (js_sub (interactionX cur) (px p)) (distance cur p) = NaN
    \<and> js_div (js_sub (interactionY cur) (py p)) (distance cur p) = NaN
    \<and> vx (physics_step centerX centerY cur p) = NaN
    \<and> vy (physics_step centerX centerY cur p) = NaN"
proof -
  have D: "distance cur p = Fin 0"
    using assms by (simp add: distance_def js_sub_def Let_def)
  show ?thesis
    using assms D
    by (simp add: physics_step_def Let_def radiusRef_def js_sub_NaN_right js_add_NaN_right
          js_sub_def)
qed

theorem zero_distance_gives_NaN_witness:
  "interactionX \<lparr>pt_x = Some (Fin 5), pt_y = Some (Fin 7)\<rparr> = Fin 5
   \<and> interactionY \<lparr>pt_x = Some (Fin 5), pt_y = Some (Fin 7)\<rparr> = Fin 7
   \<and> vx (physics_step (Fin 400) (Fin 300) \<lparr>pt_x = Some (Fin 5), pt_y = Some (Fin 7)\<rparr>
       \<lparr>px = Fin 5, py = Fin 7, originX = Fin 0, originY = Fin 0,
        color = ''rgb(255, 255, 255)'', psize = Fin 1, vx = Fin 3, vy = Fin 4,
        density = Fin 2\<rparr>) = NaN
   \<and> vy (physics_step (Fin 400) (Fin 300) \<lparr>pt_x = Some (Fin 5), pt_y = Some (Fin 7)\<rparr>
       \<lparr>px = Fin 5, py = Fin 7, originX = Fin 0, originY = Fin 0,
        color = ''rgb(255, 255, 255)'', psize = Fin 1, vx = Fin 3, vy = Fin 4,
        density = Fin 2\<rparr>) = NaN"
  using zero_distance_gives_NaN
    [of "\<lparr>pt_x = Some (Fin 5), pt_y = Some (Fin 7)\<rparr>" 5 7
        "\<lparr>px = Fin 5, py = Fin 7, originX = Fin 0, originY = Fin 0,
          color = ''rgb(255, 255, 255)'', psize = Fin 1, vx = Fin 3, vy = Fin 4,
          density = Fin 2\<rparr>" "Fin 400" "Fin 300"]
  by (simp add: interactionX_def interactionY_def)

lemma sentinel_far:
  assumes "0 \<le> a" and "0 \<le> b"
  shows "320 < sqrt ((- 1000 - a) * (- 1000 - a) + (- 1000 - b) * (- 1000 - b))"
proof -
  have "1000 + a \<le> sqrt ((1000 + a)\<^sup>2 + (1000 + b)\<^sup>2)"
    by (rule real_sqrt_sum_squares_ge1)
  moreover have "(1000 + a)\<^sup>2 + (1000 + b)\<^sup>2
                 = (- 1000 - a) * (- 1000 - a) + (- 1000 - b) * (- 1000 - b)"
    by (simp add: power2_eq_square algebra_simps)
  ultimately show ?thesis using assms by simp
qed

text \<open>
  C6. With a null smoothed point the step measures the distance to (-1000, -1000). For
  a particle at non-negative coordinates that distance is above 320, the test of the
  repulsion branch fails, and the step is the spring toward home followed by damping
  and integration.
\<close>

theorem null_point_no_repulsion:
  assumes "pt_x cur = None" and "pt_y cur = None"
    and "px p = Fin a" and "py p = Fin b" and "0 \<le> a" and "0 \<le> b"
  shows "interactionX cur = Fin (- 1000) \<and> interactionY cur = Fin (- 1000)
    \<and> (\<exists>d. distance cur p = Fin d \<and> 320 < d)
    \<and> \<not> js_lt (distance cur p) radiusRef
    \<and> physics_step centerX centerY cur p
        = spec_integrate (spec_damp (spec_spring centerX centerY p))"
proof -
  have I: "interactionX cur = Fin (- 1000)" "interactionY cur = Fin (- 1000)"
    using assms(1,2) by (simp_all add: interactionX_def interactionY_def)
  let ?d = "sqrt ((- 1000 - a) * (- 1000 - a) + (- 1000 - b) * (- 1000 - b))"
  have far: "320 < ?d"
    using assms(5,6) by (rule sentinel_far)
  have nn: "\<not> (- 1000 - a) * (- 1000 - a) + (- 1000 - b) * (- 1000 - b) < 0"
    by (simp add: not_less)
  have D: "distance cur p = Fin ?d"
    using assms(3,4) I nn by (simp add: distance_def js_sub_def Let_def)
  have N: "\<not> js_lt (distance cur p) radiusRef"
    using far by (simp add: D radiusRef_def)
  have S: "physics_step centerX centerY cur p
           = spec_integrate (spec_damp (spec_spring centerX centerY p))"
    using N assms(3,4) by (intro spring_branch_eq) auto
  show ?thesis using I D far N S by blast
qed

theorem null_point_no_repulsion_witness:
  "pt_x \<lparr>pt_x = None, pt_y = None\<rparr> = None
   \<and> (0::real) \<le> 30 \<and> (0::real) \<le> 40
   \<and> \<not> js_lt (distance \<lparr>pt_x = None, pt_y = None\<rparr>
        \<lparr>px = Fin 30, py = Fin 40, originX = Fin (- 370), originY = Fin (- 310),
         color = ''rgb(255, 255, 255)'', psize = Fin 1, vx = Fin 0, vy = Fin 0,
         density = Fin 2\<rparr>) radiusRef
   \<and> physics_step (Fin 400) (Fin 300) \<lparr>pt_x = None, pt_y = None\<rparr>
        \<lparr>px = Fin 30, py = Fin 40, originX = Fin (- 370), originY = Fin (- 310),
         color = ''rgb(255, 255, 255)'', psize = Fin 1, vx = Fin 0, vy = Fin 0,
         density = Fin 2\<rparr>
      = \<lparr>px = Fin 30, py = Fin 38.2, originX = Fin (- 370), originY = Fin (- 310),
         color = ''rgb(255, 255, 255)'', psize = Fin 1, vx = Fin 0, vy = Fin (- 1.8),
         density = Fin 2\<rparr>"
  using null_point_no_repulsion
    [of "\<lparr>pt_x = None, pt_y = None\<rparr>"
        "\<lparr>px = Fin 30, py = Fin 40, originX = Fin (- 370), originY = Fin (- 310),
          color = ''rgb(255, 255, 255)'', psize = Fin 1, vx = Fin 0, vy = Fin 0,
          density = Fin 2\<rparr>" 30 40 "Fin 400" "Fin 300"]
  by (simp add: spec_integrate_def spec_damp_def spec_spring_def home_x_def home_y_def
        js_sub_def)







section \<open>The immutable fields\<close>

lemma physics_step_fixed_fields:
  "fixed_fields (physics_step centerX centerY cur p) = fixed_fields p"
  by (simp add: physics_step_def fixed_fields_def Let_def)

lemma animate_fixed_fields:
  "map fixed_fields (particles (animate ctx_ok s)) = map fixed_fields (particles s)"
  by (simp add: animate_def Let_def physics_step_fixed_fields comp_def split: option.splits)

lemma handle_fixed_fields:
  "map fixed_fields (particles (handle e s)) = map fixed_fields (particles s)"
  by (cases e) (simp_all add: animate_fixed_fields split: option.splits)

lemma run_fixed_fields:
  "map fixed_fields (particles (run evs s)) = map fixed_fields (particles s)"
  by (induction evs arbitrary: s) (simp_all add: handle_fixed_fields)

text \<open>
  C2. The physics step changes nothing but position and velocity: origin, colour, size
  and density of every particle are the same after one step, after a frame, and after
  any sequence of frames, resizes and pointer events. Home moves with the centre only:
  after a step, home for a canvas of width \<open>w'\<close> is the new centre plus the old origin.
\<close>

theorem fixed_fields_never_mutated:
  "fixed_fields (physics_step centerX centerY cur p) = fixed_fields p
   \<and> map fixed_fields (particles (animate ctx_ok s)) = map fixed_fields (particles s)
   \<and> map fixed_fields (particles (run evs s)) = map fixed_fields (particles s)
   \<and> home_x (Fin (real w' / 2)) (physics_step centerX centerY cur p)
       = js_add (Fin (real w' / 2)) (originX p)"
  by (simp add: physics_step_fixed_fields animate_fixed_fields run_fixed_fields home_x_def)
     (simp add: physics_step_def Let_def)


section \<open>Sampling without a drawing context\<close>

text \<open>
  C9, as the code has it. Without the offscreen context the call installs no particle
  set: the particle array, the canvas and both interaction points are as before. The
  remembered image is not: it is assigned before the context is asked for.
\<close>

theorem initParticles_without_context:
  "initParticles False data rnd img width height s = s\<lparr>imageRef := Some img\<rparr>
   \<and> particles (initParticles False data rnd img width height s) = particles s
   \<and> canvasRef (initParticles False data rnd img width height s) = canvasRef s
   \<and> targetRef (initParticles False data rnd img width height s) = targetRef s
   \<and> currentRef (initParticles False data rnd img width height s) = currentRef s"
  by (simp add: initParticles_def)

text \<open>
  C9 as stated fails: a first call with an image and no context leaves a state that
  differs from the prior one.
\<close>

theorem initParticles_without_context_changes_state:
  "initParticles False [] sample_rnd \<lparr>img_src = ''logo'', img_width = 500, img_height = 500\<rparr> 800 600
     \<lparr>canvasRef = Some \<lparr>cv_width = 800, cv_height = 600\<rparr>, particles = [],
      imageRef = None, targetRef = \<lparr>pt_x = None, pt_y = None\<rparr>,
      currentRef = \<lparr>pt_x = None, pt_y = None\<rparr>\<rparr>
   \<noteq> \<lparr>canvasRef = Some \<lparr>cv_width = 800, cv_height = 600\<rparr>, particles = [],
      imageRef = None, targetRef = \<lparr>pt_x = None, pt_y = None\<rparr>,
      currentRef = \<lparr>pt_x = None, pt_y = None\<rparr>\<rparr>"
  by (simp add: initParticles_def)


section \<open>The sampler's loops\<close>

lemma step_of_pos: "0 < step_of w"
  by (simp add: step_of_def)

lemma multiples_from:
  assumes "0 < s" and "s dvd x" and "x < n"
  shows "filter (\<lambda>i. s dvd i) [x..<n] = x # filter (\<lambda>i. s dvd i) [x + s..<n]"
proof -
  have gap: "\<not> s dvd i" if "x < i" "i < x + s" for i
  proof
    assume "s dvd i"
    then have "s dvd (i - x)" using assms(2) by (rule dvd_diff_nat)
    moreover have "0 < i - x" using that by simp
    ultimately have "s \<le> i - x" by (rule dvd_imp_le)
    then show False using that by simp
  qed
  have split: "[x..<n] = x # [Suc x..<n]"
    using assms(3) by (rule upt_conv_Cons)
  have rest: "filter (\<lambda>i. s dvd i) [Suc x..<n] = filter (\<lambda>i. s dvd i) [x + s..<n]"
  proof (cases "x + s \<le> n")
    case True
    have "Suc x \<le> x + s" using assms(1) by simp
    then have "[Suc x..<n] = [Suc x..<x + s] @ [x + s..<n]"
      using True by (metis le_Suc_ex upt_add_eq_append)
    moreover have "filter (\<lambda>i. s dvd i) [Suc x..<x + s] = []"
      using gap by (auto simp: filter_empty_conv)
    ultimately show ?thesis by simp
  next
    case False
    then have "filter (\<lambda>i. s dvd i) [Suc x..<n] = []"
      using gap by (auto simp: filter_empty_conv)
    moreover have "filter (\<lambda>i. s dvd i) [x + s..<n] = []" using False by simp
    ultimately show ?thesis by (simp only:)
  qed
  show ?thesis using assms(2) split rest by simp
qed

lemma place_append:
  "place rnd w h k (ps @ qs) = place rnd w h k ps @ place rnd w h (k + 5 * length ps) qs"
  by (induction ps arbitrary: k) (simp_all add: add.assoc)

lemma opaque_in_range:
  "opaque data w (x, y) \<Longrightarrow> \<not> length data \<le> (y * w + x) * 4"
  by (simp add: opaque_def pixel_alpha_def data_at_def split: if_splits)

lemma image_row_eq:
  assumes "step_of w dvd x"
  shows "image_row rnd data w h y x st =
           (fst st @ place rnd w h (snd st)
              (filter (opaque data w) (map (\<lambda>i. (i, y)) (filter (\<lambda>i. step_of w dvd i) [x..<w]))),
            snd st + 5 * length
              (filter (opaque data w) (map (\<lambda>i. (i, y)) (filter (\<lambda>i. step_of w dvd i) [x..<w]))))"
  using assms
proof (induction rnd data w h y x st rule: image_row.induct)
  case (1 rnd data width height y x st)
  let ?s = "step_of width"
  show ?case
  proof (cases "x < width")
    case False
    then show ?thesis by (subst image_row.simps) simp
  next
    case True
    have nxt: "?s dvd x + ?s" using "1.prems" by simp
    have cons: "filter (\<lambda>i. ?s dvd i) [x..<width] = x # filter (\<lambda>i. ?s dvd i) [x + ?s..<width]"
      using step_of_pos "1.prems" True by (rule multiples_from)
    show ?thesis
    proof (cases "opaque data width (x, y)")
      case op: True
      have inr: "\<not> length data \<le> (y * width + x) * 4"
        using op by (rule opaque_in_range)
      have ex: "alpha_exceeds (data_at data ((y * width + x) * 4 + 3))"
        using op by (simp add: opaque_def pixel_alpha_def)
      have IH: "image_row rnd data width height y (x + ?s)
                  (fst st @ [image_particle rnd (snd st) width height x y], snd st + 5)
                = (fst (fst st @ [image_particle rnd (snd st) width height x y], snd st + 5)
                     @ place rnd width height (snd (fst st @ [image_particle rnd (snd st) width height x y], snd st + 5))
                     (filter (opaque data width) (map (\<lambda>i. (i, y)) (filter (\<lambda>i. ?s dvd i) [x + ?s..<width]))),
                   snd (fst st @ [image_particle rnd (snd st) width height x y], snd st + 5) + 5 * length
                     (filter (opaque data width) (map (\<lambda>i. (i, y)) (filter (\<lambda>i. ?s dvd i) [x + ?s..<width]))))"
        using "1.IH"(2)[OF True refl refl refl inr ex nxt] .
      have unf: "image_row rnd data width height y x st
                 = image_row rnd data width height y (x + ?s)
                     (fst st @ [image_particle rnd (snd st) width height x y], snd st + 5)"
        using True inr ex by (subst image_row.simps) (simp add: Let_def)
      show ?thesis
        unfolding unf IH cons by (simp add: op)
    next
      case nop: False
      have IH: "image_row rnd data width height y (x + ?s) st
                = (fst st @ place rnd width height (snd st)
                     (filter (opaque data width) (map (\<lambda>i. (i, y)) (filter (\<lambda>i. ?s dvd i) [x + ?s..<width]))),
                   snd st + 5 * length
                     (filter (opaque data width) (map (\<lambda>i. (i, y)) (filter (\<lambda>i. ?s dvd i) [x + ?s..<width]))))"
      proof (cases "length data \<le> (y * width + x) * 4")
        case True
        show ?thesis using "1.IH"(1)[OF \<open>x < width\<close> refl refl refl True nxt] .
      next
        case False
        have nex: "\<not> alpha_exceeds (data_at data ((y * width + x) * 4 + 3))"
          using nop by (simp add: opaque_def pixel_alpha_def)
        show ?thesis using "1.IH"(3)[OF \<open>x < width\<close> refl refl refl False nex nxt] .
      qed
      have nex: "\<not> alpha_exceeds (data_at data ((y * width + x) * 4 + 3))"
        using nop by (simp add: opaque_def pixel_alpha_def)
      have unf: "image_row rnd data width height y x st
                 = image_row rnd data width height y (x + ?s) st"
        using True nex by (subst image_row.simps) (simp add: Let_def)
      show ?thesis
        unfolding unf IH cons by (simp add: nop)
    qed
  qed
qed


lemma image_rows_eq:
  assumes "step_of w dvd y"
  shows "image_rows rnd data w h y st =
           (fst st @ place rnd w h (snd st)
              (filter (opaque data w)
                 (concat (map (\<lambda>j. map (\<lambda>i. (i, j)) (visited (step_of w) w))
                            (filter (\<lambda>j. step_of w dvd j) [y..<h])))),
            snd st + 5 * length
              (filter (opaque data w)
                 (concat (map (\<lambda>j. map (\<lambda>i. (i, j)) (visited (step_of w) w))
                            (filter (\<lambda>j. step_of w dvd j) [y..<h])))))"
  using assms
proof (induction rnd data w h y st rule: image_rows.induct)
  case (1 rnd data width height y st)
  let ?s = "step_of width"
  let ?row = "\<lambda>j. map (\<lambda>i. (i, j)) (visited ?s width)"
  show ?case
  proof (cases "y < height")
    case False
    then show ?thesis by (subst image_rows.simps) simp
  next
    case True
    have nxt: "?s dvd y + ?s" using "1.prems" by simp
    have cons: "filter (\<lambda>j. ?s dvd j) [y..<height] = y # filter (\<lambda>j. ?s dvd j) [y + ?s..<height]"
      using step_of_pos "1.prems" True by (rule multiples_from)
    have row: "image_row rnd data width height y 0 st
               = (fst st @ place rnd width height (snd st) (filter (opaque data width) (?row y)),
                  snd st + 5 * length (filter (opaque data width) (?row y)))"
      using image_row_eq[of width 0 rnd data height y st] by (simp add: visited_def)
    have unf: "image_rows rnd data width height y st
               = image_rows rnd data width height (y + ?s) (image_row rnd data width height y 0 st)"
      using True by (subst image_rows.simps) simp
    have step: "image_rows rnd data width height y st
                = (fst (image_row rnd data width height y 0 st)
                     @ place rnd width height (snd (image_row rnd data width height y 0 st))
                         (filter (opaque data width)
                            (concat (map ?row (filter (\<lambda>j. ?s dvd j) [y + ?s..<height])))),
                   snd (image_row rnd data width height y 0 st) + 5 * length
                         (filter (opaque data width)
                            (concat (map ?row (filter (\<lambda>j. ?s dvd j) [y + ?s..<height])))))"
      by (simp only: unf "1.IH"[OF True nxt])
    show ?thesis
      by (simp only: step) (simp add: row cons place_append add.assoc)
  qed
qed


lemma sphereArea_eq:
  "sphereArea w h = Fin (pi * (0.45 * real (min w h))\<^sup>2)"
proof -
  have "pi * (real (min w h) * 0.45) * (real (min w h) * 0.45) = pi * (0.45 * real (min w h))\<^sup>2"
    unfolding power2_eq_square by (simp only: mult_ac)
  then show ?thesis
    by (simp only: sphereArea_def universeRadius_def js_mul.simps)
qed

lemma ambientCount_eq:
  "ambientCount w h = Fin (of_int (min \<lfloor>pi * (0.45 * real (min w h))\<^sup>2 / 30\<rfloor> 20000))"
proof -
  have T: "targetCount w h = Fin (of_int \<lfloor>pi * (0.45 * real (min w h))\<^sup>2 / 30\<rfloor>)"
    by (simp only: targetCount_def sphereArea_eq js_div.simps js_floor.simps) simp
  show ?thesis
    unfolding ambientCount_def T by (simp add: min_def)
qed

lemma ambientCount_nat:
  "ambientCount w h = Fin (real (nat (min \<lfloor>pi * (0.45 * real (min w h))\<^sup>2 / 30\<rfloor> 20000)))"
proof -
  have "0 \<le> pi * (0.45 * real (min w h))\<^sup>2 / 30"
    by simp
  then have "0 \<le> min \<lfloor>pi * (0.45 * real (min w h))\<^sup>2 / 30\<rfloor> 20000"
    by simp
  then show ?thesis
    by (simp only: ambientCount_eq of_nat_nat)
qed

lemma ambient_loop_length:
  assumes "ambientCount w h = Fin (real n)"
  shows "length (fst (ambient_loop rnd w h i st)) = length (fst st) + (n - i)"
  using assms
proof (induction rnd w h i st rule: ambient_loop.induct)
  case (1 rnd width height i st)
  show ?case
  proof (cases "js_lt (Fin (real i)) (ambientCount width height)")
    case True
    then have "i < n" using "1.prems" by simp
    moreover have "length (fst (ambient_loop rnd width height (i + 1)
                     (fst st @ [ambient_particle rnd (snd st) width height], snd st + 6)))
                   = length (fst st) + 1 + (n - (i + 1))"
      using "1.IH"[OF True "1.prems"] by simp
    ultimately show ?thesis
      using True by (subst ambient_loop.simps) simp
  next
    case False
    then have "\<not> i < n" using "1.prems" by simp
    then show ?thesis
      using False by (subst ambient_loop.simps) simp
  qed
qed

lemma grid_eq:
  "grid w h = concat (map (\<lambda>j. map (\<lambda>i. (i, j)) (visited (step_of w) w))
                        (filter (\<lambda>j. step_of w dvd j) [0..<h]))"
  by (simp add: grid_def step_of_def visited_def)

lemma initParticles_split:
  "particles (initParticles True data rnd img w h s)
   = fst (ambient_loop rnd w h 0 ([], 0))
     @ place rnd w h (snd (ambient_loop rnd w h 0 ([], 0))) (filter (opaque data w) (grid w h))"
  using image_rows_eq[of w 0 rnd data h "ambient_loop rnd w h 0 ([], 0)"]
  by (simp add: initParticles_def Let_def grid_eq)

lemma place_fields:
  "map (\<lambda>p. (originX p, originY p, color p)) (place rnd w h k ps)
   = map (\<lambda>(x, y). (Fin (real x - real w / 2), Fin (real y - real h / 2), ''rgb(255, 255, 255)'')) ps"
  by (induction ps arbitrary: k) (simp_all add: image_particle_def js_sub_def Let_def case_prod_beta)

text \<open>
  C7. The first loop pushes min(floor(pi * (0.45 * min(W, H))^2 / 30), 20000) particles,
  and they are the first that many of the installed set.
\<close>

theorem ambient_particle_count:
  "length (fst (ambient_loop rnd W H 0 ([], 0)))
     = nat (min \<lfloor>pi * (0.45 * real (min W H))\<^sup>2 / 30\<rfloor> 20000)
   \<and> take (nat (min \<lfloor>pi * (0.45 * real (min W H))\<^sup>2 / 30\<rfloor> 20000))
        (particles (initParticles True data rnd img W H s))
     = fst (ambient_loop rnd W H 0 ([], 0))"
proof -
  have L: "length (fst (ambient_loop rnd W H 0 ([], 0)))
           = nat (min \<lfloor>pi * (0.45 * real (min W H))\<^sup>2 / 30\<rfloor> 20000)"
    using ambient_loop_length[where rnd = rnd and i = 0 and st = "([], 0)", OF ambientCount_nat, of W H] by simp
  show ?thesis
    using L by (simp add: initParticles_split)
qed

text \<open>
  C8. The installed set is the ambient particles followed by the image particles; the
  image particles are placed, in visiting order, for exactly the grid positions of
  stride 2 (3 below width 768) whose alpha exceeds 128: each has the position minus the
  centre as origin and is pure white.
\<close>

theorem image_particles_on_grid:
  "particles (initParticles True data rnd img w h s)
     = fst (ambient_loop rnd w h 0 ([], 0))
       @ place rnd w h (snd (ambient_loop rnd w h 0 ([], 0))) (filter (opaque data w) (grid w h))
   \<and> map (\<lambda>p. (originX p, originY p, color p))
        (place rnd w h k (filter (opaque data w) (grid w h)))
     = map (\<lambda>(x, y). (Fin (real x - real w / 2), Fin (real y - real h / 2), ''rgb(255, 255, 255)''))
         (filter (opaque data w) (grid w h))"
  by (simp only: initParticles_split place_fields simp_thms)

text \<open>
  An example: a 4 by 2 canvas (stride 3, so the columns 0 and 3 of row 0) whose pixel
  (3, 0) has alpha 128.
\<close>

lemma pi_small: "\<lfloor>pi * (0.45 * real (min (4::nat) 2))\<^sup>2 / 30\<rfloor> = 0"
proof -
  have "pi * (0.45 * real (min (4::nat) 2))\<^sup>2 / 30 < 1"
    using pi_less_4 by (simp add: power2_eq_square)
  moreover have "0 \<le> pi * (0.45 * real (min (4::nat) 2))\<^sup>2 / 30"
    by simp
  ultimately show ?thesis by linarith
qed

lemma upt4: "[0..<4] = [0, 1, 2, 3]"
  by (simp add: upt_rec)

lemma upt2: "[0..<2] = [0, 1]"
  by (simp add: upt_rec)

lemma sampler_example:
  "map (\<lambda>p. (originX p, originY p, color p))
     (particles (initParticles True
        [0, 0, 0, 255,  0, 0, 0, 255,  0, 0, 0, 255,  0, 0, 0, 128,
         0, 0, 0, 255,  0, 0, 0, 255,  0, 0, 0, 255,  0, 0, 0, 255]
        rnd img 4 2 s))
   = [(Fin (- 2), Fin (- 1), ''rgb(255, 255, 255)'')]"
proof -
  have A: "fst (ambient_loop rnd 4 2 0 ([], 0)) = []"
    using ambient_loop_length[where rnd = rnd and i = 0 and st = "([], 0)", OF ambientCount_nat, of 4 2]
    by (simp only: pi_small) simp
  show ?thesis
    unfolding initParticles_split A
    by (simp add: grid_def visited_def upt4 upt2 opaque_def pixel_alpha_def data_at_def
          image_particle_def js_sub_def Let_def)
qed


section \<open>Convergence to home\<close>

































end
